theory Spec2Isabelle
  imports Main "HOL-Library.Word" "HOL-Library.Log_Nat" "HOL-Library.Sublist" "HOL-Library.Multiset"
begin

section \<open>The invoice generator: src/app/invoice-generator.tsx\<close>

text \<open>
  The component \<open>InvoiceGenerator\<close> keeps six pieces of React state (four header strings,
  the line items, the toasts) and defines nine closures over them. Each closure is embedded
  as a function on an explicit state record. What the component takes from its host is
  explicit as well: an identifier returned by \<open>uuidv4()\<close> is an argument of the operation
  that draws it, the timers registered with \<open>setTimeout\<close> and the clock are fields of the
  state, the files written by \<open>doc.save\<close> are a field of the state, and the number
  formatting and the table layout of jsPDF are fields of a record \<open>host\<close>.
\<close>

subsection \<open>JavaScript numbers\<close>

text \<open>
  A \<open>number\<close> is an IEEE 754 binary64 value: NaN, an infinity, or a finite value, kept as
  the rational it denotes. The two zeros are one value: the program never divides, and
  no operation it uses tells them apart. Every arithmetic result is the exact result
  rounded to the nearest binary64 value, ties to the even significand.
\<close>

datatype number = NaN | PosInf | NegInf | Fin rat

definition pow2 :: "int \<Rightarrow> rat" where
  "pow2 e = (if 0 \<le> e then 2 ^ nat e else 1 / 2 ^ nat (- e))"

definition ilog2 :: "rat \<Rightarrow> int" where
  \<comment> \<open>for \<open>0 < a\<close>: the exponent \<open>e\<close> with \<open>2\<^sup>e \<le> a < 2\<^sup>e\<^sup>+\<^sup>1\<close>\<close>
  "ilog2 a = (if 1 \<le> a then bitlen \<lfloor>a\<rfloor> - 1 else - bitlen (\<lceil>1 / a\<rceil> - 1))"

definition round_half_even :: "rat \<Rightarrow> int" where
  "round_half_even a =
     (let f = \<lfloor>a\<rfloor>; r = a - of_int f
      in if r < 1 / 2 then f else if 1 / 2 < r then f + 1 else if even f then f else f + 1)"

definition round64 :: "rat \<Rightarrow> number" where
  \<comment> \<open>53 significant bits, least exponent \<open>-1074\<close>; a rounded magnitude \<open>v\<close> of
      \<open>2\<^sup>1\<^sup>0\<^sup>2\<^sup>4\<close> or more overflows to an infinity\<close>
  "round64 x =
     (if x = 0 then Fin 0
      else let a = \<bar>x\<bar>;
               q = max (ilog2 a - 52) (- 1074);
               v = of_int (round_half_even (a / pow2 q)) * pow2 q
           in if v = 0 then Fin 0
              else if 1024 \<le> ilog2 v then (if 0 < x then PosInf else NegInf)
              else Fin (if 0 < x then v else - v))"

instantiation number :: "{zero, plus, times, ord}"
begin

definition zero_number :: number where
  "zero_number = Fin 0"

fun plus_number :: "number \<Rightarrow> number \<Rightarrow> number" where
  "plus_number NaN y = NaN"
| "plus_number x NaN = NaN"
| "plus_number PosInf NegInf = NaN"
| "plus_number NegInf PosInf = NaN"
| "plus_number PosInf y = PosInf"
| "plus_number NegInf y = NegInf"
| "plus_number (Fin a) PosInf = PosInf"
| "plus_number (Fin a) NegInf = NegInf"
| "plus_number (Fin a) (Fin b) = round64 (a + b)"

definition sign_inf :: "bool \<Rightarrow> number" where
  "sign_inf positive = (if positive then PosInf else NegInf)"

fun times_number :: "number \<Rightarrow> number \<Rightarrow> number" where
  "times_number NaN y = NaN"
| "times_number x NaN = NaN"
| "times_number PosInf PosInf = PosInf"
| "times_number PosInf NegInf = NegInf"
| "times_number NegInf PosInf = NegInf"
| "times_number NegInf NegInf = PosInf"
| "times_number PosInf (Fin b) = (if b = 0 then NaN else sign_inf (0 < b))"
| "times_number NegInf (Fin b) = (if b = 0 then NaN else sign_inf (b < 0))"
| "times_number (Fin a) PosInf = (if a = 0 then NaN else sign_inf (0 < a))"
| "times_number (Fin a) NegInf = (if a = 0 then NaN else sign_inf (a < 0))"
| "times_number (Fin a) (Fin b) = round64 (a * b)"

text \<open>A comparison with NaN on either side is false.\<close>

fun less_number :: "number \<Rightarrow> number \<Rightarrow> bool" where
  "less_number NaN y = False"
| "less_number x NaN = False"
| "less_number x NegInf = False"
| "less_number PosInf y = False"
| "less_number NegInf y = True"
| "less_number (Fin a) PosInf = True"
| "less_number (Fin a) (Fin b) = (a < b)"

fun less_eq_number :: "number \<Rightarrow> number \<Rightarrow> bool" where
  "less_eq_number NaN y = False"
| "less_eq_number x NaN = False"
| "less_eq_number NegInf y = True"
| "less_eq_number x PosInf = True"
| "less_eq_number x NegInf = False"
| "less_eq_number PosInf y = False"
| "less_eq_number (Fin a) (Fin b) = (a \<le> b)"

instance ..

end

subsection \<open>JavaScript strings\<close>

text \<open>
  A string is a sequence of UTF-16 code units. \<open>lit\<close> reads an ASCII literal of the
  source. \<open>trim\<close> removes the WhiteSpace and LineTerminator code points of ECMAScript
  from both ends.
\<close>

type_synonym jsstring = "16 word list"

definition lit :: "string \<Rightarrow> jsstring" where
  "lit s = map of_char s"

definition is_white :: "16 word \<Rightarrow> bool" where
  "is_white c = (c \<in> {0x9, 0xA, 0xB, 0xC, 0xD, 0x20, 0xA0, 0x1680, 0x2028, 0x2029,
                       0x202F, 0x205F, 0x3000, 0xFEFF} \<or> (0x2000 \<le> c \<and> c \<le> 0x200A))"

definition trim :: "jsstring \<Rightarrow> jsstring" where
  "trim s = rev (dropWhile is_white (rev (dropWhile is_white s)))"

subsection \<open>The data model\<close>

record LineItem =
  id_item :: jsstring
  description :: jsstring
  quantity :: number
  unitPrice :: number

datatype toast_type = error | success

record Toast =
  id_toast :: jsstring
  message :: jsstring
  type_toast :: toast_type

text \<open>
  The arguments \<open>field: keyof LineItem\<close> and \<open>value: string | number\<close> of
  \<open>updateLineItem\<close>, as the pairs under which the updated object is a \<open>LineItem\<close> again:
  a string for \<open>id\<close> and \<open>description\<close>, a number for \<open>quantity\<close> and \<open>unitPrice\<close>.
\<close>

datatype field_value =
    Id_field jsstring
  | Description_field jsstring
  | Quantity_field number
  | UnitPrice_field number

text \<open>The calls of jsPDF that make up a document, in the order the program makes them.\<close>

datatype pdf_op =
    SetFontSize number
  | Text jsstring number number "jsstring option"
  | AutoTable number "jsstring list list" "jsstring list list"

record state =
  companyName :: jsstring
  customerName :: jsstring
  invoiceNumber :: jsstring
  invoiceDate :: jsstring
  lineItems :: "LineItem list"
  toasts :: "Toast list"
  clock :: nat
  timers :: "(nat \<times> jsstring) list"
  downloads :: "(jsstring \<times> pdf_op list) list"

text \<open>
  \<open>clock\<close> counts milliseconds. A pair \<open>(t, i)\<close> of \<open>timers\<close> is a callback registered
  by \<open>showToast\<close> that is due at time \<open>t\<close> and removes the toasts with id \<open>i\<close>.
  \<open>downloads\<close> holds the files saved so far, each with its name.
\<close>

record host =
  toString :: "number \<Rightarrow> jsstring"
  toFixed :: "number \<Rightarrow> nat \<Rightarrow> jsstring"
  lastAutoTable_finalY :: "pdf_op list \<Rightarrow> number"

subsection \<open>The form state store\<close>

definition addLineItem :: "jsstring \<Rightarrow> state \<Rightarrow> state" where
  "addLineItem uuid s =
     s\<lparr>lineItems := lineItems s @
          [\<lparr>id_item = uuid, description = [], quantity = 0, unitPrice = 0\<rparr>]\<rparr>"

fun set_field :: "LineItem \<Rightarrow> field_value \<Rightarrow> LineItem" where
  "set_field item (Id_field v) = item\<lparr>id_item := v\<rparr>"
| "set_field item (Description_field v) = item\<lparr>description := v\<rparr>"
| "set_field item (Quantity_field v) = item\<lparr>quantity := v\<rparr>"
| "set_field item (UnitPrice_field v) = item\<lparr>unitPrice := v\<rparr>"

definition updateLineItem :: "jsstring \<Rightarrow> field_value \<Rightarrow> state \<Rightarrow> state" where
  "updateLineItem i fv s =
     s\<lparr>lineItems := map (\<lambda>item. if id_item item = i then set_field item fv else item)
                        (lineItems s)\<rparr>"

definition removeLineItem :: "jsstring \<Rightarrow> state \<Rightarrow> state" where
  "removeLineItem i s = s\<lparr>lineItems := filter (\<lambda>item. id_item item \<noteq> i) (lineItems s)\<rparr>"

subsection \<open>The derived calculator\<close>

definition calculateSubtotal :: "state \<Rightarrow> number" where
  "calculateSubtotal s =
     foldl (\<lambda>sum item. sum + quantity item * unitPrice item) 0 (lineItems s)"

definition calculateTotal :: "state \<Rightarrow> number" where
  "calculateTotal s =
     (let subtotal = calculateSubtotal s;
          tax = subtotal * round64 (1 / 10)
      in subtotal + tax)"

subsection \<open>The notification queue\<close>

definition showToast :: "jsstring \<Rightarrow> toast_type \<Rightarrow> jsstring \<Rightarrow> state \<Rightarrow> state" where
  \<comment> \<open>\<open>uuid\<close> is the value of \<open>const id = uuidv4()\<close>\<close>
  "showToast msg ty uuid s =
     s\<lparr>toasts := toasts s @ [\<lparr>id_toast = uuid, message = msg, type_toast = ty\<rparr>],
       timers := timers s @ [(clock s + 5000, uuid)]\<rparr>"

definition timeout_callback :: "jsstring \<Rightarrow> state \<Rightarrow> state" where
  \<comment> \<open>the function handed to \<open>setTimeout\<close>\<close>
  "timeout_callback i s = s\<lparr>toasts := filter (\<lambda>toast. id_toast toast \<noteq> i) (toasts s)\<rparr>"




subsection \<open>The validator\<close>

text \<open>
  \<open>validateForm\<close> returns its boolean together with the state after the toast it may
  have shown. \<open>validateItems\<close> is the \<open>for (const item of lineItems)\<close> loop with the
  \<open>return true\<close> that follows it.
\<close>

fun validateItems :: "jsstring \<Rightarrow> LineItem list \<Rightarrow> state \<Rightarrow> bool \<times> state" where
  "validateItems uuid [] s = (True, s)"
| "validateItems uuid (item # items) s =
     (if trim (description item) = [] then
        (False, showToast (lit ''All items must have a description'') error uuid s)
      else if quantity item \<le> 0 then
        (False, showToast (lit ''All items must have a quantity greater than 0'') error uuid s)
      else if unitPrice item < 0 then
        (False, showToast (lit ''All items must have a unit price of 0 or greater'') error uuid s)
      else validateItems uuid items s)"

definition validateForm :: "jsstring \<Rightarrow> state \<Rightarrow> bool \<times> state" where
  "validateForm uuid s =
     (if trim (companyName s) = [] then
        (False, showToast (lit ''Company name is required'') error uuid s)
      else if trim (customerName s) = [] then
        (False, showToast (lit ''Customer name is required'') error uuid s)
      else if trim (invoiceNumber s) = [] then
        (False, showToast (lit ''Invoice number is required'') error uuid s)
      else if invoiceDate s = [] then
        (False, showToast (lit ''Invoice date is required'') error uuid s)
      else if length (lineItems s) = 0 then
        (False, showToast (lit ''At least one item is required'') error uuid s)
      else validateItems uuid (lineItems s) s)"

text \<open>
  The tests of \<open>validateForm\<close> as a list, in the order of the program text: each with
  whether the state passes it and the message shown when it does not.
\<close>

definition tested_item_rules :: "LineItem \<Rightarrow> (bool \<times> jsstring) list" where
  "tested_item_rules item =
     [(\<not> trim (description item) = [], lit ''All items must have a description''),
      (\<not> quantity item \<le> 0, lit ''All items must have a quantity greater than 0''),
      (\<not> unitPrice item < 0, lit ''All items must have a unit price of 0 or greater'')]"

definition tested_rules :: "state \<Rightarrow> (bool \<times> jsstring) list" where
  "tested_rules s =
     [(\<not> trim (companyName s) = [], lit ''Company name is required''),
      (\<not> trim (customerName s) = [], lit ''Customer name is required''),
      (\<not> trim (invoiceNumber s) = [], lit ''Invoice number is required''),
      (\<not> invoiceDate s = [], lit ''Invoice date is required''),
      (\<not> length (lineItems s) = 0, lit ''At least one item is required'')]
     @ concat (map tested_item_rules (lineItems s))"

subsection \<open>The document exporter\<close>

definition tableData :: "host \<Rightarrow> state \<Rightarrow> jsstring list list" where
  "tableData h s =
     map (\<lambda>item. [description item,
                   toString h (quantity item),
                   lit ''$'' @ toFixed h (unitPrice item) 2,
                   lit ''$'' @ toFixed h (quantity item * unitPrice item) 2])
         (lineItems s)"

definition header_and_table :: "host \<Rightarrow> state \<Rightarrow> pdf_op list" where
  \<comment> \<open>the calls on \<open>doc\<close> from \<open>new jsPDF()\<close> to \<open>doc.autoTable\<close>\<close>
  "header_and_table h s =
     [SetFontSize (Fin 20),
      Text (lit ''Invoice'') (Fin 105) (Fin 20) (Some (lit ''center'')),
      SetFontSize (Fin 12),
      Text (lit ''Company: '' @ companyName s) (Fin 20) (Fin 40) None,
      Text (lit ''Customer: '' @ customerName s) (Fin 20) (Fin 50) None,
      Text (lit ''Invoice Number: '' @ invoiceNumber s) (Fin 20) (Fin 60) None,
      Text (lit ''Date: '' @ invoiceDate s) (Fin 20) (Fin 70) None,
      AutoTable (Fin 80)
        [[lit ''Description'', lit ''Quantity'', lit ''Unit Price'', lit ''Total'']]
        (tableData h s)]"

definition document :: "host \<Rightarrow> state \<Rightarrow> pdf_op list" where
  \<comment> \<open>all calls on \<open>doc\<close> before \<open>doc.save\<close>; \<open>lastAutoTable.finalY\<close> is read after the table\<close>
  "document h s =
     (let doc = header_and_table h s;
          finalY = lastAutoTable_finalY h doc + Fin 10
      in doc @
         [Text (lit ''Subtotal: $'' @ toFixed h (calculateSubtotal s) 2) (Fin 140) finalY None,
          Text (lit ''Tax (10%): $'' @ toFixed h (calculateSubtotal s * round64 (1 / 10)) 2)
               (Fin 140) (finalY + Fin 10) None,
          Text (lit ''Total: $'' @ toFixed h (calculateTotal s) 2)
               (Fin 140) (finalY + Fin 20) None])"

definition save :: "jsstring \<Rightarrow> pdf_op list \<Rightarrow> state \<Rightarrow> state" where
  \<comment> \<open>\<open>doc.save(name)\<close>: the browser receives the file\<close>
  "save name doc s = s\<lparr>downloads := downloads s @ [(name, doc)]\<rparr>"

definition handleDownload :: "host \<Rightarrow> jsstring \<Rightarrow> state \<Rightarrow> state" where
  \<comment> \<open>\<open>uuid\<close> is drawn by the one call of \<open>showToast\<close> that a run makes\<close>
  "handleDownload h uuid s =
     (case validateForm uuid s of
        (False, s') \<Rightarrow> s'
      | (True, s') \<Rightarrow>
          showToast (lit ''Invoice generated successfully'') success uuid
            (save (lit ''invoice.pdf'') (document h s') s'))"

subsection \<open>The store operations in sequence\<close>

text \<open>
  The state after \<open>useState('')\<close> and \<open>useState([])\<close>, and the three operations of the
  form state store on the item list, applied one after the other. \<open>Add\<close> carries the
  identifier that \<open>uuidv4()\<close> returns to \<open>addLineItem\<close>.
\<close>

definition init :: state where
  "init = \<lparr>companyName = [], customerName = [], invoiceNumber = [], invoiceDate = [],
           lineItems = [], toasts = [], clock = 0, timers = [], downloads = []\<rparr>"

datatype store_op =
    Add jsstring
  | Update jsstring field_value
  | Remove jsstring

fun apply_op :: "store_op \<Rightarrow> state \<Rightarrow> state" where
  "apply_op (Add uuid) s = addLineItem uuid s"
| "apply_op (Update i fv) s = updateLineItem i fv s"
| "apply_op (Remove i) s = removeLineItem i s"

fun apply_ops :: "store_op list \<Rightarrow> state \<Rightarrow> state" where
  "apply_ops [] s = s"
| "apply_ops (op # ops) s = apply_ops ops (apply_op op s)"

definition ids :: "state \<Rightarrow> jsstring list" where
  "ids s = map id_item (lineItems s)"

text \<open>
  The operations as the rendered form calls them. \<open>updateLineItem\<close> has three call
  sites: with \<open>'description'\<close> and the text of the input, and with \<open>'quantity'\<close> and
  with \<open>'unitPrice'\<close> and \<open>Number(e.target.value)\<close> of an input of type number, which is
  never NaN. No call site names the field \<open>id\<close>.
\<close>

fun form_op :: "store_op \<Rightarrow> bool" where
  "form_op (Update i (Id_field v)) = False"
| "form_op (Update i (Quantity_field v)) = (v \<noteq> NaN)"
| "form_op (Update i (UnitPrice_field v)) = (v \<noteq> NaN)"
| "form_op op = True"


subsection \<open>The component as a transition system\<close>






subsection \<open>The specification's own definitions\<close>

text \<open>
  The sum of a sequence \<open>f 0, \<dots>, f (n - 1)\<close>, taken from the left and starting at 0,
  as the specification's \<open>sum(quantity_i * unitPrice_i)\<close>.
\<close>

fun spec_sum :: "(nat \<Rightarrow> number) \<Rightarrow> nat \<Rightarrow> number" where
  "spec_sum f 0 = 0"
| "spec_sum f (Suc n) = spec_sum f n + f n"

definition spec_tax :: "state \<Rightarrow> number" where
  \<comment> \<open>\<open>tax(items) = subtotal(items) * 0.10\<close>\<close>
  "spec_tax s = calculateSubtotal s * round64 (10 / 100)"

text \<open>
  The validator of the specification: \<open>validate(header, items) \<rightarrow> Ok | Err(reason)\<close>,
  the rules in their order, each with whether it holds and the message it reports,
  and the first failing rule's message.
\<close>

datatype verdict = Ok | Err jsstring

definition spec_item_rules :: "LineItem \<Rightarrow> (bool \<times> jsstring) list" where
  "spec_item_rules item =
     [(trim (description item) \<noteq> [], lit ''All items must have a description''),
      (quantity item > 0, lit ''All items must have a quantity greater than 0''),
      (unitPrice item \<ge> 0, lit ''All items must have a unit price of 0 or greater'')]"

definition spec_rules :: "state \<Rightarrow> (bool \<times> jsstring) list" where
  "spec_rules s =
     [(trim (companyName s) \<noteq> [], lit ''Company name is required''),
      (trim (customerName s) \<noteq> [], lit ''Customer name is required''),
      (trim (invoiceNumber s) \<noteq> [], lit ''Invoice number is required''),
      (invoiceDate s \<noteq> [], lit ''Invoice date is required''),
      (lineItems s \<noteq> [], lit ''At least one item is required'')]
     @ concat (map spec_item_rules (lineItems s))"

fun first_failure :: "(bool \<times> jsstring) list \<Rightarrow> verdict" where
  "first_failure [] = Ok"
| "first_failure ((holds, msg) # rules) = (if holds then first_failure rules else Err msg)"

definition spec_validate :: "state \<Rightarrow> verdict" where
  "spec_validate s = first_failure (spec_rules s)"

subsection \<open>Predicates and sample data of the statements\<close>

definition form_ops :: "store_op list" where
  \<comment> \<open>a row is added and filled in, with quantity 0\<close>
  "form_ops =
     [Add (lit ''id-1''),
      Update (lit ''id-1'') (Description_field (lit ''Widget'')),
      Update (lit ''id-1'') (Quantity_field (Fin 0)),
      Update (lit ''id-1'') (UnitPrice_field (Fin 10))]"

definition NaN_free :: "state \<Rightarrow> bool" where
  "NaN_free s =
     list_all (\<lambda>item. quantity item \<noteq> NaN \<and> unitPrice item \<noteq> NaN) (lineItems s)"

definition same_form :: "state \<Rightarrow> state \<Rightarrow> bool" where
  \<comment> \<open>the header and the items, which are all that validation and the document read\<close>
  "same_form s s' =
     (companyName s = companyName s' \<and> customerName s = customerName s' \<and>
      invoiceNumber s = invoiceNumber s' \<and> invoiceDate s = invoiceDate s' \<and>
      lineItems s = lineItems s')"



definition example_host :: host where
  "example_host = \<lparr>toString = (\<lambda>x. lit ''n''), toFixed = (\<lambda>x n. lit ''n.nn''),
                    lastAutoTable_finalY = (\<lambda>doc. Fin 100)\<rparr>"

definition widget :: LineItem where
  "widget = \<lparr>id_item = lit ''id-1'', description = lit ''Widget'',
             quantity = Fin 2, unitPrice = Fin 10\<rparr>"

definition gadget :: LineItem where
  "gadget = \<lparr>id_item = lit ''id-2'', description = lit ''Gadget'',
             quantity = Fin 1, unitPrice = Fin 5\<rparr>"

definition example_state :: state where
  "example_state =
     init\<lparr>companyName := lit ''Acme'', customerName := lit ''Bob'',
          invoiceNumber := lit ''INV-001'', invoiceDate := lit ''2024-01-01'',
          lineItems := [widget, gadget]\<rparr>"

definition scenario_A :: state where
  \<comment> \<open>end-to-end scenario A of the specification\<close>
  "scenario_A = example_state\<lparr>lineItems := [widget]\<rparr>"

definition form_state :: state where
  \<comment> \<open>the header of the example with the items that \<open>form_ops\<close> make\<close>
  "form_state = example_state\<lparr>lineItems := [widget\<lparr>quantity := Fin 0\<rparr>]\<rparr>"

definition zero_quantity_state :: state where
  "zero_quantity_state = example_state\<lparr>lineItems := [widget, gadget\<lparr>quantity := Fin 0\<rparr>]\<rparr>"

section \<open>Properties\<close>

subsection \<open>Derived values\<close>

lemma foldl_spec_sum:
  fixes g :: "'a \<Rightarrow> number"
  shows "foldl (\<lambda>sum item. sum + g item) 0 xs = spec_sum (\<lambda>i. g (xs ! i)) (length xs)"
proof (induction xs rule: rev_induct)
  case Nil
  show ?case by simp
next
  case (snoc x xs)
  have "k \<le> length xs \<Longrightarrow>
        spec_sum (\<lambda>i. g ((xs @ [x]) ! i)) k = spec_sum (\<lambda>i. g (xs ! i)) k" for k
    by (induction k) (simp_all add: nth_append)
  then have "spec_sum (\<lambda>i. g ((xs @ [x]) ! i)) (length xs) =
             spec_sum (\<lambda>i. g (xs ! i)) (length xs)"
    by simp
  with snoc show ?case by simp
qed

text \<open>
  C1. The subtotal is the sum over the items, in their order, of
  \<open>quantity\<^sub>i * unitPrice\<^sub>i\<close>, and the subtotal of the empty sequence is 0. The sum is
  the one of JavaScript numbers: it starts at 0 and adds the products from the left.
\<close>

theorem subtotal_is_sum:
  "calculateSubtotal s =
     spec_sum (\<lambda>i. quantity (lineItems s ! i) * unitPrice (lineItems s ! i))
              (length (lineItems s))
   \<and> calculateSubtotal (s\<lparr>lineItems := []\<rparr>) = 0"
  by (simp add: calculateSubtotal_def foldl_spec_sum)

text \<open>
  The arithmetic at work on scenario A of the specification: one item, 2 pieces at 10.00.
\<close>

lemma round64_samples:
  "round64 20 = Fin 20"
  "round64 (1 / 10) = Fin (3602879701896397 / 36028797018963968)"
  "round64 (18014398509481985 / 9007199254740992) = Fin 2"
  "round64 22 = Fin 22"
  by code_simp+

lemma scenario_A_totals:
  "calculateSubtotal scenario_A = Fin 20 \<and> spec_tax scenario_A = Fin 2
   \<and> calculateTotal scenario_A = Fin 22"
  by (simp add: calculateSubtotal_def calculateTotal_def spec_tax_def scenario_A_def
      widget_def zero_number_def round64_samples)

text \<open>
  C3. The tax is \<open>subtotal * 0.10\<close> and the total is \<open>subtotal + tax\<close>: \<open>calculateTotal\<close>
  adds that tax to the subtotal, and the tax line of the exported document prints it.
\<close>

theorem tax_and_total:
  "calculateTotal s = calculateSubtotal s + spec_tax s
   \<and> Text (lit ''Tax (10%): $'' @ toFixed h (spec_tax s) 2) (Fin 140)
           (lastAutoTable_finalY h (header_and_table h s) + Fin 10 + Fin 10) None
       \<in> set (document h s)"
  by (simp add: calculateTotal_def spec_tax_def document_def Let_def)

subsection \<open>The store operations\<close>

lemma update_absent:
  "list_all (\<lambda>item. id_item item \<noteq> i) xs \<Longrightarrow>
   map (\<lambda>item. if id_item item = i then set_field item fv else item) xs = xs"
  by (induction xs) auto

lemma filter_all:
  "list_all P xs \<Longrightarrow> filter P xs = xs"
  by (induction xs) auto

lemma count_list_filter:
  "P x \<Longrightarrow> count_list (filter P xs) x = count_list xs x"
  by (induction xs) auto

lemma distinct_ids_unique_position:
  assumes "distinct (ids s)" and "k < length (lineItems s)" and "k' < length (lineItems s)"
    and "id_item (lineItems s ! k) = i" and "k' \<noteq> k"
  shows "id_item (lineItems s ! k') \<noteq> i"
proof
  assume "id_item (lineItems s ! k') = i"
  with assms have "ids s ! k' = ids s ! k" "k' < length (ids s)" "k < length (ids s)"
    by (simp_all add: ids_def)
  with assms(1) have "k' = k"
    by (simp add: nth_eq_iff_index_eq)
  with assms(5) show False by simp
qed

lemma length_filter_distinct:
  "distinct (map f xs) \<Longrightarrow> i \<in> set (map f xs) \<Longrightarrow>
   length (filter (\<lambda>x. f x \<noteq> i) xs) + 1 = length xs"
proof (induction xs)
  case Nil
  then show ?case by simp
next
  case (Cons x xs)
  show ?case
  proof (cases "f x = i")
    case True
    from Cons.prems have "f x \<notin> f ` set xs"
      by simp
    with True have "\<forall>y \<in> set xs. f y \<noteq> i"
      by blast
    then have "filter (\<lambda>x. f x \<noteq> i) xs = xs"
      by (simp add: filter_id_conv)
    with True show ?thesis by simp
  next
    case False
    with Cons show ?thesis by auto
  qed
qed

text \<open>
  C5. \<open>updateLineItem\<close> leaves the state as it is when no item has the id. Otherwise the
  list keeps its length, an item with another id stays what it was at its position, an
  item with the id stays at its position with the named field replaced and its three
  other fields as they were, and nothing but the item list changes. Every item with
  the id is updated; when the ids are distinct that is one item, and every other
  position keeps its item.
\<close>

theorem update_replaces_named_field:
  "(list_all (\<lambda>item. id_item item \<noteq> i) (lineItems s) \<longrightarrow> updateLineItem i fv s = s)
   \<and> length (lineItems (updateLineItem i fv s)) = length (lineItems s)
   \<and> (\<forall>k < length (lineItems s).
        lineItems (updateLineItem i fv s) ! k =
          (if id_item (lineItems s ! k) = i then set_field (lineItems s ! k) fv
           else lineItems s ! k))
   \<and> (case fv of
        Id_field v \<Rightarrow> set_field item fv =
          \<lparr>id_item = v, description = description item,
           quantity = quantity item, unitPrice = unitPrice item\<rparr>
      | Description_field v \<Rightarrow> set_field item fv =
          \<lparr>id_item = id_item item, description = v,
           quantity = quantity item, unitPrice = unitPrice item\<rparr>
      | Quantity_field v \<Rightarrow> set_field item fv =
          \<lparr>id_item = id_item item, description = description item,
           quantity = v, unitPrice = unitPrice item\<rparr>
      | UnitPrice_field v \<Rightarrow> set_field item fv =
          \<lparr>id_item = id_item item, description = description item,
           quantity = quantity item, unitPrice = v\<rparr>)
   \<and> (distinct (ids s) \<longrightarrow>
        (\<forall>k < length (lineItems s). \<forall>k' < length (lineItems s).
           id_item (lineItems s ! k) = i \<and> k' \<noteq> k \<longrightarrow>
           lineItems (updateLineItem i fv s) ! k' = lineItems s ! k'))
   \<and> updateLineItem i fv s = s\<lparr>lineItems := lineItems (updateLineItem i fv s)\<rparr>"
proof (intro conjI)
  show "list_all (\<lambda>item. id_item item \<noteq> i) (lineItems s) \<longrightarrow> updateLineItem i fv s = s"
    by (simp add: updateLineItem_def update_absent)
  show "length (lineItems (updateLineItem i fv s)) = length (lineItems s)"
    by (simp add: updateLineItem_def)
  show "\<forall>k < length (lineItems s).
        lineItems (updateLineItem i fv s) ! k =
          (if id_item (lineItems s ! k) = i then set_field (lineItems s ! k) fv
           else lineItems s ! k)"
    by (simp add: updateLineItem_def)
  show "case fv of
        Id_field v \<Rightarrow> set_field item fv =
          \<lparr>id_item = v, description = description item,
           quantity = quantity item, unitPrice = unitPrice item\<rparr>
      | Description_field v \<Rightarrow> set_field item fv =
          \<lparr>id_item = id_item item, description = v,
           quantity = quantity item, unitPrice = unitPrice item\<rparr>
      | Quantity_field v \<Rightarrow> set_field item fv =
          \<lparr>id_item = id_item item, description = description item,
           quantity = v, unitPrice = unitPrice item\<rparr>
      | UnitPrice_field v \<Rightarrow> set_field item fv =
          \<lparr>id_item = id_item item, description = description item,
           quantity = quantity item, unitPrice = v\<rparr>"
    by (cases fv; cases item) simp_all
  show "distinct (ids s) \<longrightarrow>
        (\<forall>k < length (lineItems s). \<forall>k' < length (lineItems s).
           id_item (lineItems s ! k) = i \<and> k' \<noteq> k \<longrightarrow>
           lineItems (updateLineItem i fv s) ! k' = lineItems s ! k')"
  proof (intro impI allI)
    fix k k'
    assume d: "distinct (ids s)" and k: "k < length (lineItems s)"
      and k': "k' < length (lineItems s)"
      and at: "id_item (lineItems s ! k) = i \<and> k' \<noteq> k"
    from d k k' at have "id_item (lineItems s ! k') \<noteq> i"
      by (intro distinct_ids_unique_position [of s k k' i]) simp_all
    with k' show "lineItems (updateLineItem i fv s) ! k' = lineItems s ! k'"
      by (simp add: updateLineItem_def)
  qed
  show "updateLineItem i fv s = s\<lparr>lineItems := lineItems (updateLineItem i fv s)\<rparr>"
    by (simp add: updateLineItem_def)
qed

theorem update_replaces_named_field_witness:
  "list_all (\<lambda>item. id_item item \<noteq> lit ''id-3'') (lineItems example_state)
   \<and> updateLineItem (lit ''id-3'') (Quantity_field (Fin 7)) example_state = example_state
   \<and> 1 < length (lineItems example_state)
   \<and> lineItems (updateLineItem (lit ''id-2'') (Quantity_field (Fin 7)) example_state) ! 1
       = gadget\<lparr>quantity := Fin 7\<rparr>
   \<and> distinct (ids example_state)
   \<and> id_item (lineItems example_state ! 1) = lit ''id-2''
   \<and> lineItems (updateLineItem (lit ''id-2'') (Quantity_field (Fin 7)) example_state) ! 0
       = widget"
proof -
  note inst = update_replaces_named_field
               [of "lit ''id-2''" example_state "Quantity_field (Fin 7)"]
  have absent: "list_all (\<lambda>item. id_item item \<noteq> lit ''id-3'') (lineItems example_state)"
    by (simp add: example_state_def widget_def gadget_def lit_def)
  have noop:
    "updateLineItem (lit ''id-3'') (Quantity_field (Fin 7)) example_state = example_state"
    using update_replaces_named_field
            [of "lit ''id-3''" example_state "Quantity_field (Fin 7)"] absent
    by blast
  have len: "1 < length (lineItems example_state)" "0 < length (lineItems example_state)"
    by (simp_all add: example_state_def)
  have uniq: "distinct (ids example_state)"
    by (simp add: ids_def example_state_def widget_def gadget_def lit_def)
  have at1: "id_item (lineItems example_state ! 1) = lit ''id-2''"
    by (simp add: example_state_def gadget_def)
  have item1: "lineItems example_state ! 1 = gadget" and item0: "lineItems example_state ! 0 = widget"
    by (simp_all add: example_state_def)
  have "lineItems (updateLineItem (lit ''id-2'') (Quantity_field (Fin 7)) example_state) ! 1 =
        (if id_item (lineItems example_state ! 1) = lit ''id-2''
         then set_field (lineItems example_state ! 1) (Quantity_field (Fin 7))
         else lineItems example_state ! 1)"
    using inst len(1) by blast
  then have changed:
    "lineItems (updateLineItem (lit ''id-2'') (Quantity_field (Fin 7)) example_state) ! 1
       = gadget\<lparr>quantity := Fin 7\<rparr>"
    unfolding at1 unfolding item1 by simp
  have "lineItems (updateLineItem (lit ''id-2'') (Quantity_field (Fin 7)) example_state) ! 0
       = lineItems example_state ! 0"
    using inst uniq len at1 by (metis zero_neq_one)
  then have kept:
    "lineItems (updateLineItem (lit ''id-2'') (Quantity_field (Fin 7)) example_state) ! 0
       = widget"
    unfolding item0 .
  from absent noop len(1) changed uniq at1 kept show ?thesis
    by blast
qed

text \<open>
  C10. \<open>updateLineItem\<close> never changes the number of line items.
\<close>

theorem update_keeps_length:
  "length (lineItems (updateLineItem i fv s)) = length (lineItems s)"
  by (simp add: updateLineItem_def)

text \<open>
  C6. \<open>removeLineItem\<close> leaves the state as it is when no item has the id. Otherwise no
  item with the id remains, the remaining items are a subsequence of the old list (their
  order persists), every item with another id occurs as often as before, and nothing
  but the item list changes. When the ids are distinct and one of them is removed, the
  list gets shorter by one item.
\<close>

theorem remove_removes_matching:
  "(list_all (\<lambda>item. id_item item \<noteq> i) (lineItems s) \<longrightarrow> removeLineItem i s = s)
   \<and> list_all (\<lambda>item. id_item item \<noteq> i) (lineItems (removeLineItem i s))
   \<and> subseq (lineItems (removeLineItem i s)) (lineItems s)
   \<and> (\<forall>item. id_item item \<noteq> i \<longrightarrow>
         count_list (lineItems (removeLineItem i s)) item = count_list (lineItems s) item)
   \<and> (distinct (ids s) \<and> i \<in> set (ids s) \<longrightarrow>
         length (lineItems (removeLineItem i s)) + 1 = length (lineItems s))
   \<and> removeLineItem i s = s\<lparr>lineItems := lineItems (removeLineItem i s)\<rparr>"
proof (intro conjI)
  show "list_all (\<lambda>item. id_item item \<noteq> i) (lineItems s) \<longrightarrow> removeLineItem i s = s"
    by (simp add: removeLineItem_def filter_all)
  show "list_all (\<lambda>item. id_item item \<noteq> i) (lineItems (removeLineItem i s))"
    by (simp add: removeLineItem_def list_all_iff)
  show "subseq (lineItems (removeLineItem i s)) (lineItems s)"
    by (simp add: removeLineItem_def)
  show "\<forall>item. id_item item \<noteq> i \<longrightarrow>
         count_list (lineItems (removeLineItem i s)) item = count_list (lineItems s) item"
    by (simp add: removeLineItem_def count_list_filter)
  show "distinct (ids s) \<and> i \<in> set (ids s) \<longrightarrow>
         length (lineItems (removeLineItem i s)) + 1 = length (lineItems s)"
    using length_filter_distinct [of id_item "lineItems s" i]
    by (simp add: removeLineItem_def ids_def)
  show "removeLineItem i s = s\<lparr>lineItems := lineItems (removeLineItem i s)\<rparr>"
    by (simp add: removeLineItem_def)
qed

theorem remove_removes_matching_witness:
  "list_all (\<lambda>item. id_item item \<noteq> lit ''id-3'') (lineItems example_state)
   \<and> removeLineItem (lit ''id-3'') example_state = example_state
   \<and> id_item gadget \<noteq> lit ''id-1''
   \<and> count_list (lineItems (removeLineItem (lit ''id-1'') example_state)) gadget = 1
   \<and> distinct (ids example_state) \<and> lit ''id-1'' \<in> set (ids example_state)
   \<and> length (lineItems (removeLineItem (lit ''id-1'') example_state)) = 1
   \<and> lineItems (removeLineItem (lit ''id-1'') example_state) = [gadget]"
proof -
  note inst = remove_removes_matching [of "lit ''id-1''" example_state]
  have absent: "list_all (\<lambda>item. id_item item \<noteq> lit ''id-3'') (lineItems example_state)"
    by (simp add: example_state_def widget_def gadget_def lit_def)
  have noop: "removeLineItem (lit ''id-3'') example_state = example_state"
    using remove_removes_matching [of "lit ''id-3''" example_state] absent by blast
  have other: "id_item gadget \<noteq> lit ''id-1''"
    by (simp add: gadget_def lit_def)
  have "count_list (lineItems (removeLineItem (lit ''id-1'') example_state)) gadget
        = count_list (lineItems example_state) gadget"
    using inst other by blast
  then have kept:
    "count_list (lineItems (removeLineItem (lit ''id-1'') example_state)) gadget = 1"
    by (simp add: example_state_def widget_def gadget_def lit_def)
  have uniq: "distinct (ids example_state)" "lit ''id-1'' \<in> set (ids example_state)"
    by (simp_all add: ids_def example_state_def widget_def gadget_def lit_def)
  have "length (lineItems (removeLineItem (lit ''id-1'') example_state)) + 1
        = length (lineItems example_state)"
    using inst uniq by blast
  then have shorter: "length (lineItems (removeLineItem (lit ''id-1'') example_state)) = 1"
    by (simp add: example_state_def)
  have "lineItems (removeLineItem (lit ''id-1'') example_state) = [gadget]"
    by (simp add: removeLineItem_def example_state_def widget_def gadget_def lit_def)
  with absent noop other kept uniq shorter show ?thesis by blast
qed

subsection \<open>The validator\<close>

lemma le_zero_iff:
  "x \<noteq> NaN \<Longrightarrow> (x \<le> (0::number)) = (\<not> 0 < x)"
  by (cases x) (auto simp: zero_number_def)

lemma less_zero_iff:
  "x \<noteq> NaN \<Longrightarrow> (x < (0::number)) = (\<not> 0 \<le> x)"
  by (cases x) (auto simp: zero_number_def)

lemma validateItems_tested:
  "validateItems uuid items s =
     (case first_failure (concat (map tested_item_rules items)) of
        Ok \<Rightarrow> (True, s) | Err msg \<Rightarrow> (False, showToast msg error uuid s))"
  by (induction items) (auto simp: tested_item_rules_def)

lemma validateForm_tested:
  "validateForm uuid s =
     (case first_failure (tested_rules s) of
        Ok \<Rightarrow> (True, s) | Err msg \<Rightarrow> (False, showToast msg error uuid s))"
  using validateItems_tested [of uuid "lineItems s" s]
  by (simp add: validateForm_def tested_rules_def)

lemma tested_rules_spec_rules:
  assumes "NaN_free s"
  shows "tested_rules s = spec_rules s"
proof -
  have "list_all (\<lambda>item. quantity item \<noteq> NaN \<and> unitPrice item \<noteq> NaN) items \<Longrightarrow>
        concat (map tested_item_rules items) = concat (map spec_item_rules items)" for items
    by (induction items)
       (simp_all add: tested_item_rules_def spec_item_rules_def le_zero_iff less_zero_iff)
  with assms
  have "concat (map tested_item_rules (lineItems s)) = concat (map spec_item_rules (lineItems s))"
    by (simp add: NaN_free_def)
  then show ?thesis
    unfolding tested_rules_def spec_rules_def by simp
qed

lemma NaN_free_apply_op:
  assumes "form_op op" and "NaN_free s"
  shows "NaN_free (apply_op op s)"
proof (cases op)
  case (Add uuid)
  with assms show ?thesis
    by (simp add: NaN_free_def addLineItem_def zero_number_def)
next
  case (Update i fv)
  with assms(1) have "quantity (set_field item fv) \<noteq> NaN \<and> unitPrice (set_field item fv) \<noteq> NaN"
    if "quantity item \<noteq> NaN \<and> unitPrice item \<noteq> NaN" for item
    using that by (cases fv) simp_all
  with assms(2) Update show ?thesis
    by (auto simp: NaN_free_def updateLineItem_def list_all_iff)
next
  case (Remove i)
  with assms show ?thesis
    by (simp add: NaN_free_def removeLineItem_def list_all_iff)
qed

lemma NaN_free_apply_ops:
  "list_all form_op ops \<Longrightarrow> NaN_free s \<Longrightarrow> NaN_free (apply_ops ops s)"
  by (induction ops arbitrary: s) (simp_all add: NaN_free_apply_op)

lemma NaN_free_init:
  "NaN_free init"
  by (simp add: NaN_free_def init_def)

text \<open>
  C2. For every header and item list, \<open>validateForm\<close> goes through its rules in the
  fixed order (company name, customer name and invoice number trimmed non-empty,
  invoice date non-empty, items non-empty, then item by item: description trimmed
  non-empty, quantity, unit price) and reports the message of the first rule that
  fails and nothing else; when none fails it returns true and shows no toast. This
  holds of every state, with the tests as the program makes them (first conjunct).
  The tests \<open>item.quantity <= 0\<close> and \<open>item.unitPrice < 0\<close> are the rules \<open>quantity > 0\<close>
  and \<open>unitPrice \<ge> 0\<close> of the specification on every number but NaN, so the result is
  the first failing rule of the specification for every header and every item list that
  the store operations, called as the form calls them, make from the empty list
  (second conjunct), and in every state without NaN (third conjunct). In every state whatever,
  when company name and customer name are both missing the reported message is
  \<open>Company name is required\<close> (fourth conjunct).
\<close>

theorem validateForm_first_failure:
  "validateForm uuid s =
     (case first_failure (tested_rules s) of
        Ok \<Rightarrow> (True, s) | Err msg \<Rightarrow> (False, showToast msg error uuid s))
   \<and> (list_all form_op ops \<and> lineItems s = lineItems (apply_ops ops init) \<longrightarrow>
        validateForm uuid s =
          (case spec_validate s of
             Ok \<Rightarrow> (True, s) | Err msg \<Rightarrow> (False, showToast msg error uuid s)))
   \<and> (NaN_free s \<longrightarrow>
        validateForm uuid s =
          (case spec_validate s of
             Ok \<Rightarrow> (True, s) | Err msg \<Rightarrow> (False, showToast msg error uuid s)))
   \<and> (trim (companyName s) = [] \<and> trim (customerName s) = [] \<longrightarrow>
        validateForm uuid s =
          (False, showToast (lit ''Company name is required'') error uuid s))"
proof (intro conjI impI)
  show "validateForm uuid s =
     (case first_failure (tested_rules s) of
        Ok \<Rightarrow> (True, s) | Err msg \<Rightarrow> (False, showToast msg error uuid s))"
    by (rule validateForm_tested)
  have spec: "validateForm uuid s' =
          (case spec_validate s' of
             Ok \<Rightarrow> (True, s') | Err msg \<Rightarrow> (False, showToast msg error uuid s'))"
    if "NaN_free s'" for s'
    using validateForm_tested [of uuid s'] tested_rules_spec_rules [OF that]
    by (simp add: spec_validate_def)
  show "validateForm uuid s =
          (case spec_validate s of
             Ok \<Rightarrow> (True, s) | Err msg \<Rightarrow> (False, showToast msg error uuid s))"
    if "list_all form_op ops \<and> lineItems s = lineItems (apply_ops ops init)"
  proof -
    from that have "NaN_free (apply_ops ops init)"
      by (intro NaN_free_apply_ops NaN_free_init) simp
    with that have "NaN_free s"
      by (simp add: NaN_free_def)
    then show ?thesis by (rule spec)
  qed
  show "validateForm uuid s =
          (case spec_validate s of
             Ok \<Rightarrow> (True, s) | Err msg \<Rightarrow> (False, showToast msg error uuid s))"
    if "NaN_free s"
    using that by (rule spec)
  show "validateForm uuid s =
          (False, showToast (lit ''Company name is required'') error uuid s)"
    if "trim (companyName s) = [] \<and> trim (customerName s) = []"
    using that by (simp add: validateForm_def)
qed

lemma form_ops_items:
  "lineItems (apply_ops form_ops init) = [widget\<lparr>quantity := Fin 0\<rparr>]"
  by (simp add: form_ops_def widget_def init_def addLineItem_def updateLineItem_def
      zero_number_def)

theorem validateForm_first_failure_witness:
  "list_all form_op form_ops \<and> lineItems form_state = lineItems (apply_ops form_ops init)
   \<and> validateForm (lit ''t-1'') form_state =
      (False, showToast (lit ''All items must have a quantity greater than 0'') error
                (lit ''t-1'') form_state)
   \<and> NaN_free zero_quantity_state
   \<and> validateForm (lit ''t-1'') zero_quantity_state =
      (False, showToast (lit ''All items must have a quantity greater than 0'') error
                (lit ''t-1'') zero_quantity_state)
   \<and> trim (companyName init) = [] \<and> trim (customerName init) = []
   \<and> validateForm (lit ''t-1'') init =
        (False, showToast (lit ''Company name is required'') error (lit ''t-1'') init)"
proof -
  have ops: "list_all form_op form_ops"
    by (simp add: form_ops_def)
  have items: "lineItems form_state = lineItems (apply_ops form_ops init)"
    unfolding form_ops_items by (simp add: form_state_def)
  have verdict1: "spec_validate form_state =
                   Err (lit ''All items must have a quantity greater than 0'')"
    by (simp add: spec_validate_def spec_rules_def spec_item_rules_def
        form_state_def example_state_def widget_def init_def
        trim_def is_white_def lit_def zero_number_def)
  have free: "NaN_free zero_quantity_state"
    by (simp add: NaN_free_def zero_quantity_state_def widget_def gadget_def)
  have verdict2: "spec_validate zero_quantity_state =
                   Err (lit ''All items must have a quantity greater than 0'')"
    by (simp add: spec_validate_def spec_rules_def spec_item_rules_def
        zero_quantity_state_def example_state_def widget_def gadget_def init_def
        trim_def is_white_def lit_def zero_number_def)
  have empty: "trim (companyName init) = [] \<and> trim (customerName init) = []"
    by (simp add: init_def trim_def)
  from validateForm_first_failure [of "lit ''t-1''" form_state form_ops] ops items
  have "validateForm (lit ''t-1'') form_state =
          (case spec_validate form_state of
             Ok \<Rightarrow> (True, form_state)
           | Err msg \<Rightarrow> (False, showToast msg error (lit ''t-1'') form_state))"
    by blast
  then have a: "validateForm (lit ''t-1'') form_state =
      (False, showToast (lit ''All items must have a quantity greater than 0'') error
                (lit ''t-1'') form_state)"
    unfolding verdict1 by simp
  from validateForm_first_failure [of "lit ''t-1''" zero_quantity_state form_ops] free
  have "validateForm (lit ''t-1'') zero_quantity_state =
          (case spec_validate zero_quantity_state of
             Ok \<Rightarrow> (True, zero_quantity_state)
           | Err msg \<Rightarrow> (False, showToast msg error (lit ''t-1'') zero_quantity_state))"
    by blast
  then have b: "validateForm (lit ''t-1'') zero_quantity_state =
      (False, showToast (lit ''All items must have a quantity greater than 0'') error
                (lit ''t-1'') zero_quantity_state)"
    unfolding verdict2 by simp
  have c: "validateForm (lit ''t-1'') init =
        (False, showToast (lit ''Company name is required'') error (lit ''t-1'') init)"
    using validateForm_first_failure [of "lit ''t-1''" init form_ops] empty
    by blast
  from ops items free empty a b c show ?thesis by blast
qed

lemma validateItems_cases:
  "validateItems uuid items s = (True, s) \<or>
   (\<exists>msg. validateItems uuid items s = (False, showToast msg error uuid s))"
  by (induction items) auto

lemma validateForm_cases:
  "validateForm uuid s = (True, s) \<or>
   (\<exists>msg. validateForm uuid s = (False, showToast msg error uuid s))"
  using validateItems_cases [of uuid "lineItems s" s]
  by (auto simp: validateForm_def)

lemma validateItems_verdict:
  "fst (validateItems uuid items s) = fst (validateItems uuid' items s')"
  by (induction items) auto

lemma validateForm_verdict:
  "same_form s s' \<Longrightarrow> fst (validateForm uuid s) = fst (validateForm uuid' s')"
  using validateItems_verdict [of uuid "lineItems s" s uuid' s']
  by (simp add: validateForm_def same_form_def)

lemma example_state_valid:
  "validateForm uuid example_state = (True, example_state)"
  by (simp add: validateForm_def example_state_def widget_def gadget_def init_def
      trim_def is_white_def lit_def zero_number_def)

lemma init_invalid:
  "validateForm uuid init = (False, showToast (lit ''Company name is required'') error uuid init)"
  by (simp add: validateForm_def init_def trim_def)

subsection \<open>The exporter\<close>

lemma document_same_form:
  "same_form s s' \<Longrightarrow> document h s = document h s'"
  by (simp add: document_def header_and_table_def tableData_def calculateSubtotal_def
      calculateTotal_def same_form_def)


text \<open>
  C4. When validation fails, \<open>handleDownload\<close> ends in the state the validator left: no
  file is saved and the one toast added is the validator's error toast, so no success
  toast. When validation succeeds, the file \<open>invoice.pdf\<close> is saved and the success
  toast is shown on the state that already holds the file.
\<close>

theorem export_guarded_by_validation:
  "(\<not> fst (validateForm uuid s) \<longrightarrow>
      handleDownload h uuid s = snd (validateForm uuid s)
      \<and> downloads (handleDownload h uuid s) = downloads s
      \<and> (\<exists>msg. toasts (handleDownload h uuid s) =
            toasts s @ [\<lparr>id_toast = uuid, message = msg, type_toast = error\<rparr>]))
   \<and> (fst (validateForm uuid s) \<longrightarrow>
      handleDownload h uuid s =
        showToast (lit ''Invoice generated successfully'') success uuid
          (save (lit ''invoice.pdf'') (document h s) s)
      \<and> downloads (handleDownload h uuid s) =
          downloads s @ [(lit ''invoice.pdf'', document h s)]
      \<and> toasts (handleDownload h uuid s) =
          toasts s @ [\<lparr>id_toast = uuid, message = lit ''Invoice generated successfully'',
                       type_toast = success\<rparr>])"
  using validateForm_cases [of uuid s]
  by (auto simp: handleDownload_def showToast_def save_def)

theorem export_guarded_by_validation_witness:
  "\<not> fst (validateForm (lit ''t-1'') init)
   \<and> downloads (handleDownload example_host (lit ''t-1'') init) = []
   \<and> toasts (handleDownload example_host (lit ''t-1'') init) =
       [\<lparr>id_toast = lit ''t-1'', message = lit ''Company name is required'',
         type_toast = error\<rparr>]
   \<and> fst (validateForm (lit ''t-1'') example_state)
   \<and> downloads (handleDownload example_host (lit ''t-1'') example_state) =
       [(lit ''invoice.pdf'', document example_host example_state)]
   \<and> toasts (handleDownload example_host (lit ''t-1'') example_state) =
       [\<lparr>id_toast = lit ''t-1'', message = lit ''Invoice generated successfully'',
         type_toast = success\<rparr>]"
proof -
  have bad: "\<not> fst (validateForm (lit ''t-1'') init)"
    by (simp add: init_invalid)
  have good: "fst (validateForm (lit ''t-1'') example_state)"
    by (simp add: example_state_valid)
  from export_guarded_by_validation [of "lit ''t-1''" init example_host] bad
  have "handleDownload example_host (lit ''t-1'') init = snd (validateForm (lit ''t-1'') init)"
    and d0: "downloads (handleDownload example_host (lit ''t-1'') init) = downloads init"
    by blast+
  then have t0: "toasts (handleDownload example_host (lit ''t-1'') init) =
       [\<lparr>id_toast = lit ''t-1'', message = lit ''Company name is required'',
         type_toast = error\<rparr>]"
    by (simp add: init_invalid showToast_def) (simp add: init_def)
  from export_guarded_by_validation [of "lit ''t-1''" example_state example_host] good
  have d1: "downloads (handleDownload example_host (lit ''t-1'') example_state) =
          downloads example_state @ [(lit ''invoice.pdf'', document example_host example_state)]"
    and t1: "toasts (handleDownload example_host (lit ''t-1'') example_state) =
          toasts example_state @
          [\<lparr>id_toast = lit ''t-1'', message = lit ''Invoice generated successfully'',
            type_toast = success\<rparr>]"
    by blast+
  have empty: "downloads init = []" "downloads example_state = []" "toasts example_state = []"
    by (simp_all add: example_state_def init_def)
  from bad good d0 t0 d1 t1 show ?thesis
    unfolding empty by simp
qed

text \<open>
  C9. From a state that passes validation, two exports in a row save two files with the
  same contents, the document of the unchanged form, and add two success toasts, each
  with its own identifier and its own timer; the form is as before. When the two
  identifiers differ, the callback of the first timer leaves the second toast in place.
\<close>

theorem export_twice:
  assumes "fst (validateForm uuid1 s)"
  shows "downloads (handleDownload h uuid2 (handleDownload h uuid1 s)) =
           downloads s @
           [(lit ''invoice.pdf'', document h s), (lit ''invoice.pdf'', document h s)]
       \<and> toasts (handleDownload h uuid2 (handleDownload h uuid1 s)) =
           toasts s @
           [\<lparr>id_toast = uuid1, message = lit ''Invoice generated successfully'',
             type_toast = success\<rparr>,
            \<lparr>id_toast = uuid2, message = lit ''Invoice generated successfully'',
             type_toast = success\<rparr>]
       \<and> timers (handleDownload h uuid2 (handleDownload h uuid1 s)) =
           timers s @ [(clock s + 5000, uuid1), (clock s + 5000, uuid2)]
       \<and> same_form (handleDownload h uuid2 (handleDownload h uuid1 s)) s
       \<and> (uuid1 \<noteq> uuid2 \<longrightarrow>
            \<lparr>id_toast = uuid2, message = lit ''Invoice generated successfully'',
             type_toast = success\<rparr>
            \<in> set (toasts (timeout_callback uuid1
                             (handleDownload h uuid2 (handleDownload h uuid1 s)))))"
proof -
  let ?ok = "lit ''Invoice generated successfully''"
  let ?s1 = "handleDownload h uuid1 s"
  have s1: "?s1 = showToast ?ok success uuid1 (save (lit ''invoice.pdf'') (document h s) s)"
    using assms validateForm_cases [of uuid1 s] by (auto simp: handleDownload_def)
  then have form: "same_form ?s1 s"
    by (simp add: same_form_def showToast_def save_def)
  then have "fst (validateForm uuid2 ?s1)"
    using assms validateForm_verdict [of ?s1 s uuid2 uuid1] by simp
  then have s2: "handleDownload h uuid2 ?s1 =
      showToast ?ok success uuid2 (save (lit ''invoice.pdf'') (document h ?s1) ?s1)"
    using validateForm_cases [of uuid2 ?s1] by (auto simp: handleDownload_def)
  have doc: "document h ?s1 = document h s"
    using form by (rule document_same_form)
  show ?thesis
    unfolding s2 doc unfolding s1
    by (simp add: showToast_def save_def same_form_def timeout_callback_def)
qed

theorem export_twice_witness:
  "fst (validateForm (lit ''t-1'') example_state)
   \<and> downloads (handleDownload example_host (lit ''t-2'')
                  (handleDownload example_host (lit ''t-1'') example_state)) =
       [(lit ''invoice.pdf'', document example_host example_state),
        (lit ''invoice.pdf'', document example_host example_state)]
   \<and> map id_toast (toasts (handleDownload example_host (lit ''t-2'')
                  (handleDownload example_host (lit ''t-1'') example_state))) =
       [lit ''t-1'', lit ''t-2'']
   \<and> timers (handleDownload example_host (lit ''t-2'')
                  (handleDownload example_host (lit ''t-1'') example_state)) =
       [(5000, lit ''t-1''), (5000, lit ''t-2'')]"
proof -
  have good: "fst (validateForm (lit ''t-1'') example_state)"
    by (simp add: example_state_valid)
  have empty: "downloads example_state = []" "toasts example_state = []"
    "timers example_state = []" "clock example_state = 0"
    by (simp_all add: example_state_def init_def)
  from export_twice [OF good, of example_host "lit ''t-2''"] good show ?thesis
    unfolding empty by simp
qed

subsection \<open>Identifiers of line items\<close>




lemma apply_ops_append:
  "apply_ops (ops @ ops') s = apply_ops ops' (apply_ops ops s)"
  by (induction ops arbitrary: s) simp_all






subsection \<open>The lifetime of a notification\<close>






lemma apply_op_queue [simp]:
  "toasts (apply_op op s) = toasts s"
  "timers (apply_op op s) = timers s"
  "clock (apply_op op s) = clock s"
  by (cases op; simp add: addLineItem_def updateLineItem_def removeLineItem_def)+















end
